theory Spec2Isabelle
  imports Complex_Main
begin

section \<open>Python values reaching the protocol encoder\<close>

text \<open>
  The encoder of \<^verbatim>\<open>python_modules/base.py\<close> applies only \<^verbatim>\<open>str()\<close> and \<^verbatim>\<open>int()\<close> to the
  parameters it is given. The values modelled are \<^verbatim>\<open>None\<close>, booleans, (unbounded) integers
  and byte strings; floating-point numbers are outside this model.
\<close>

datatype pyval = PNone | PBool bool | PInt int | PStr string

datatype exn = TypeError | ValueError | KeyError string

definition sq :: char where
  "sq = CHR 0x27"

definition nl :: char where
  "nl = CHR 0x0A"

fun str_nat :: "nat \<Rightarrow> string" where
  "str_nat n = (if n < 10 then [''0123456789'' ! n]
                else str_nat (n div 10) @ [''0123456789'' ! (n mod 10)])"

declare str_nat.simps [simp del]

definition str_int :: "int \<Rightarrow> string" where
  "str_int i = (if i < 0 then CHR ''-'' # str_nat (nat (- i)) else str_nat (nat i))"

text \<open>\<^verbatim>\<open>str(p)\<close>.\<close>

fun py_str :: "pyval \<Rightarrow> string" where
  "py_str PNone = ''None''"
| "py_str (PBool b) = (if b then ''True'' else ''False'')"
| "py_str (PInt i) = str_int i"
| "py_str (PStr s) = s"

definition is_space :: "char \<Rightarrow> bool" where
  "is_space c = (c = CHR '' '' \<or> c = CHR 0x09 \<or> c = CHR 0x0A \<or> c = CHR 0x0B
                 \<or> c = CHR 0x0C \<or> c = CHR 0x0D)"

definition is_digit :: "char \<Rightarrow> bool" where
  "is_digit c = (48 \<le> (of_char c :: nat) \<and> (of_char c :: nat) \<le> 57)"

definition strip :: "string \<Rightarrow> string" where
  "strip s = rev (dropWhile is_space (rev (dropWhile is_space s)))"

definition digits_value :: "string \<Rightarrow> int" where
  "digits_value ds = foldl (\<lambda>acc c. acc * 10 + (of_char c - 48)) 0 ds"

text \<open>
  \<^verbatim>\<open>int(s)\<close> for a string, base 10: surrounding whitespace is stripped, one sign is
  allowed, and at least one decimal digit must follow (the literal syntax without digit
  grouping). Anything else raises \<^verbatim>\<open>ValueError\<close>.
\<close>

definition int_of_string :: "string \<Rightarrow> exn + int" where
  "int_of_string s =
     (let t = strip s;
          neg = (t \<noteq> [] \<and> hd t = CHR ''-'');
          ds = (if t \<noteq> [] \<and> (hd t = CHR ''-'' \<or> hd t = CHR ''+'') then tl t else t)
      in if ds \<noteq> [] \<and> list_all is_digit ds
         then Inr (if neg then - digits_value ds else digits_value ds)
         else Inl ValueError)"

text \<open>\<^verbatim>\<open>int(p)\<close>: \<^verbatim>\<open>None\<close> raises \<^verbatim>\<open>TypeError\<close>, a non-numeric string \<^verbatim>\<open>ValueError\<close>.\<close>

fun py_int :: "pyval \<Rightarrow> exn + int" where
  "py_int PNone = Inl TypeError"
| "py_int (PBool b) = Inr (if b then 1 else 0)"
| "py_int (PInt i) = Inr i"
| "py_int (PStr s) = int_of_string s"

section \<open>The service object and its protocol encoder\<close>

text \<open>
  \<^verbatim>\<open>msg.error\<close> belongs to a module outside this file; a call is recorded with its
  parameters. Debug messages are not recorded.
\<close>

datatype log_call = MsgError "pyval list"

record timetable =
  tt_last :: real
  tt_next :: real
  tt_freq :: int

text \<open>
  The fields of \<^verbatim>\<open>BaseService\<close>. \<^verbatim>\<open>stdout\<close> lists the texts written to the standard
  output, one entry for each write.
\<close>

record service =
  data_stream :: string
  retries :: int
  retries_left :: int
  priority :: int
  update_every :: int
  chart_name :: string
  dimensions :: "string list"
  charts :: "string list"
  timetable :: timetable
  msg_log :: "log_call list"
  stdout :: "string list"

text \<open>\<^verbatim>\<open>BaseService.error\<close>.\<close>

definition error_log :: "pyval list \<Rightarrow> service \<Rightarrow> service" where
  "error_log params s = s\<lparr>msg_log := msg_log s @ [MsgError (PStr (chart_name s) # params)]\<rparr>"

text \<open>The text one parameter adds to the stream in the loop of \<^verbatim>\<open>_line\<close>.\<close>

definition line_param :: "pyval \<Rightarrow> string" where
  "line_param p =
     (let p1 = py_str p;
          p2 = (if length p1 = 0 then [sq, sq] else p1);
          p3 = (if CHR '' '' \<in> set p2 then [sq] @ p2 @ [sq] else p2)
      in '' '' @ p3)"

text \<open>\<^verbatim>\<open>BaseService._line\<close>.\<close>

definition line :: "string \<Rightarrow> pyval list \<Rightarrow> service \<Rightarrow> service" where
  "line instruction params s =
     s\<lparr>data_stream :=
          foldl (\<lambda>ds p. ds @ line_param p) (data_stream s @ instruction) params @ [nl]\<rparr>"

text \<open>\<^verbatim>\<open>BaseService.chart\<close>.\<close>

definition chart ::
  "string \<Rightarrow> pyval \<Rightarrow> pyval \<Rightarrow> pyval \<Rightarrow> pyval \<Rightarrow> pyval \<Rightarrow> pyval \<Rightarrow> pyval \<Rightarrow> pyval
     \<Rightarrow> service \<Rightarrow> service" where
  "chart type_id name title units family category charttype prio upd s =
     line ''CHART'' [PStr type_id, name, title, units, family, category, charttype, prio, upd]
       (s\<lparr>charts := charts s @ [type_id]\<rparr>)"

text \<open>
  The \<^verbatim>\<open>try: int(v) except TypeError\<close> block of \<^verbatim>\<open>dimension\<close>: a \<^verbatim>\<open>TypeError\<close> is
  logged and the value replaced by 1; any other exception escapes.
\<close>

definition check_number :: "string \<Rightarrow> pyval \<Rightarrow> service \<Rightarrow> (exn + pyval) \<times> service" where
  "check_number complaint v s =
     (case py_int v of
        Inr _ \<Rightarrow> (Inr v, s)
      | Inl e \<Rightarrow> if e = TypeError then (Inr (PInt 1), error_log [PStr complaint, v] s)
                 else (Inl e, s))"

text \<open>\<^verbatim>\<open>BaseService.dimension\<close>.\<close>

definition dimension ::
  "string \<Rightarrow> string option \<Rightarrow> string \<Rightarrow> pyval \<Rightarrow> pyval \<Rightarrow> bool \<Rightarrow> service
     \<Rightarrow> (exn + unit) \<times> service" where
  "dimension dim_id name algorithm multiplier divisor hidden s =
     (case check_number ''malformed dimension: multiplier is not a number:'' multiplier s of
        (Inl e, s1) \<Rightarrow> (Inl e, s1)
      | (Inr m, s1) \<Rightarrow>
     (case check_number ''malformed dimension: divisor is not a number:'' divisor s1 of
        (Inl e, s2) \<Rightarrow> (Inl e, s2)
      | (Inr d, s2) \<Rightarrow>
          let nm = (case name of None \<Rightarrow> dim_id | Some n \<Rightarrow> n);
              alg = (if algorithm \<notin> set [''absolute'', ''incremental'',
                                          ''percentage-of-absolute-row'',
                                          ''percentage-of-incremental-row'']
                     then ''absolute'' else algorithm);
              s3 = s2\<lparr>dimensions := dimensions s2 @ [dim_id]\<rparr>
          in if hidden
             then (Inr (), line ''DIMENSION''
                             [PStr dim_id, PStr nm, PStr alg, m, d, PStr ''hidden''] s3)
             else (Inr (), line ''DIMENSION'' [PStr dim_id, PStr nm, PStr alg, m, d] s3)))"

text \<open>\<^verbatim>\<open>BaseService.begin\<close>.\<close>

definition begin_stmt :: "string \<Rightarrow> pyval \<Rightarrow> service \<Rightarrow> (exn + bool) \<times> service" where
  "begin_stmt type_id microseconds s =
     (if type_id \<notin> set (charts s)
      then (Inr False, error_log [PStr ''wrong chart type_id:'', PStr type_id] s)
      else case py_int microseconds of
             Inr _ \<Rightarrow> (Inr True, line ''BEGIN'' [PStr type_id, microseconds] s)
           | Inl e \<Rightarrow>
               if e = TypeError
               then (Inr True,
                     line ''BEGIN'' [PStr type_id, PStr []]
                       (error_log [PStr ''malformed begin statement: microseconds are not a number:'',
                                   microseconds] s))
               else (Inl e, s))"

text \<open>\<^verbatim>\<open>BaseService.set\<close>.\<close>

definition set_value :: "string \<Rightarrow> pyval \<Rightarrow> service \<Rightarrow> (exn + bool) \<times> service" where
  "set_value dim_id v s =
     (if dim_id \<notin> set (dimensions s)
      then (Inr False, error_log [PStr ''wrong dimension id:'', PStr dim_id] s)
      else case py_int v of
             Inr i \<Rightarrow> (Inr True, line ''SET'' [PStr dim_id, PStr ''='', PStr (str_int i)] s)
           | Inl e \<Rightarrow>
               if e = TypeError
               then (Inr False, error_log [PStr ''cannot set non-numeric value:'', v] s)
               else (Inl e, s))"

text \<open>\<^verbatim>\<open>BaseService.end\<close> and \<^verbatim>\<open>BaseService.commit\<close> (\<^verbatim>\<open>print\<close> adds a newline).\<close>

definition end_stmt :: "service \<Rightarrow> service" where
  "end_stmt s = line ''END'' [] s"

definition commit :: "service \<Rightarrow> service" where
  "commit s = s\<lparr>stdout := stdout s @ [data_stream s @ [nl]], data_stream := []\<rparr>"

section \<open>The scheduler\<close>

text \<open>
  Timestamps are the readings of \<^verbatim>\<open>time.time()\<close>, taken here as exact real numbers
  (rounding of floating-point arithmetic is not modelled). \<^verbatim>\<open>x % m\<close> for a reading
  \<open>x\<close> and a non-zero integer \<open>m\<close> is \<open>x - m * floor (x / m)\<close>; with \<open>m = 0\<close>
  Python raises \<^verbatim>\<open>ZeroDivisionError\<close>, whose text is \<^verbatim>\<open>float modulo\<close>.
  \<^verbatim>\<open>int(x)\<close> truncates towards zero.
\<close>

definition fmod :: "real \<Rightarrow> int \<Rightarrow> real" where
  "fmod x m = x - of_int m * of_int \<lfloor>x / of_int m\<rfloor>"

definition trunc :: "real \<Rightarrow> int" where
  "trunc x = (if 0 \<le> x then \<lfloor>x\<rfloor> else \<lceil>x\<rceil>)"

text \<open>
  \<^verbatim>\<open>BaseService.create_timetable\<close>, with the reading \<open>now\<close> of the clock as an argument.
  The left summand is the text of an escaping exception.
\<close>

definition create_timetable :: "real \<Rightarrow> int option \<Rightarrow> service \<Rightarrow> string + service" where
  "create_timetable now freq s =
     (let f = (case freq of None \<Rightarrow> update_every s | Some f \<Rightarrow> f)
      in if f = 0 then Inl ''float modulo''
         else Inr (s\<lparr>timetable :=
                        \<lparr>tt_last = now, tt_next = now - fmod now f + of_int f, tt_freq = f\<rparr>\<rparr>))"

text \<open>
  An exception that leaves a call, with its text \<^verbatim>\<open>str(e)\<close>: an instance of the class
  \<^verbatim>\<open>Exception\<close>, or one that is not (\<^verbatim>\<open>SystemExit\<close>, \<^verbatim>\<open>KeyboardInterrupt\<close>,
  \<^verbatim>\<open>GeneratorExit\<close>), which \<^verbatim>\<open>except Exception\<close> does not catch.
\<close>

datatype raised = Exception string | BaseException string

text \<open>
  What \<^verbatim>\<open>update()\<close>, which a subclass supplies, does when it is called: it returns true,
  returns false, or raises an exception.
\<close>

datatype update_result = Updated | Failed | Raised raised

text \<open>
  What one iteration of the loop of \<^verbatim>\<open>run\<close> meets: the clock at the start of
  \<^verbatim>\<open>_run_once\<close>, the behaviour of \<^verbatim>\<open>update\<close>, the clock after \<^verbatim>\<open>update\<close>, and the
  clock read for the sleep in \<^verbatim>\<open>run\<close>.
\<close>

record cycle =
  t_start :: real
  outcome :: update_result
  t_end :: real
  t_wake :: real

text \<open>\<^verbatim>\<open>BaseService._run_once\<close>.\<close>

definition run_once :: "cycle \<Rightarrow> service \<Rightarrow> (raised + bool) \<times> service" where
  "run_once c s =
     (if tt_next (timetable s) > t_start c then (Inr True, s)
      else
        let since_last = trunc ((t_start c - tt_last (timetable s)) * 1000000)
        in case outcome c of
             Raised e \<Rightarrow> (Inl e, s)
           | Failed \<Rightarrow> (Inr False, s)
           | Updated \<Rightarrow>
               if tt_freq (timetable s) = 0 then (Inl (Exception ''float modulo''), s)
               else
                 let s1 = s\<lparr>timetable := (timetable s)
                             \<lparr>tt_next := t_end c - fmod (t_end c) (tt_freq (timetable s))
                                          + of_int (tt_freq (timetable s))\<rparr>\<rparr>;
                     run_time = str_int (trunc ((t_end c - t_start c) * 1000));
                     run_time_chart =
                       ''BEGIN netdata.plugin_pythond_'' @ chart_name s1 @ '' ''
                         @ str_int since_last @ [nl]
                         @ ''SET run_time = '' @ run_time @ [nl]
                         @ ''END'' @ [nl];
                     s2 = s1\<lparr>stdout := stdout s1 @ [run_time_chart]\<rparr>
                 in (Inr True, s2\<lparr>timetable := (timetable s2)\<lparr>tt_last := t_start c\<rparr>\<rparr>))"

text \<open>
  How the loop of \<^verbatim>\<open>run\<close> stands after the iterations given: still looping, returned
  from \<^verbatim>\<open>run\<close>, or left by an exception that \<^verbatim>\<open>run\<close> does not catch: one raised in
  \<^verbatim>\<open>_run_once\<close> that is no instance of \<^verbatim>\<open>Exception\<close>, or the one that \<^verbatim>\<open>time.sleep\<close>,
  called outside the \<^verbatim>\<open>try\<close>, raises for a negative length.
\<close>

datatype run_status = Looping | Returned | Uncaught

text \<open>The \<^verbatim>\<open>while True\<close> loop of \<^verbatim>\<open>BaseService.run\<close>, one list element for each iteration.\<close>

fun run_loop :: "cycle list \<Rightarrow> service \<Rightarrow> run_status \<times> service" where
  "run_loop [] s = (Looping, s)"
| "run_loop (c # cs) s =
     (case run_once c s of
        (Inl e, s1) \<Rightarrow>
          (case e of
             Exception m \<Rightarrow>
               (Returned,
                s1\<lparr>msg_log := msg_log s1 @ [MsgError [PStr (''Something wrong: '' @ m)]]\<rparr>)
           | BaseException m \<Rightarrow> (Uncaught, s1))
      | (Inr status, s1) \<Rightarrow>
          if status
          then if tt_next (timetable s1) - t_wake c < 0 then (Uncaught, s1)
               else run_loop cs (s1\<lparr>retries_left := retries s1\<rparr>)
          else
            let s2 = s1\<lparr>retries := retries s1 - 1\<rparr>
            in if retries_left s2 \<le> 0
               then (Returned,
                     s2\<lparr>msg_log := msg_log s2 @ [MsgError [PStr ''no more retries. Exiting'']]\<rparr>)
               else if tt_freq (timetable s2) < 0 then (Uncaught, s2)
               else run_loop cs s2)"

text \<open>\<^verbatim>\<open>BaseService.run\<close>, started when the clock reads \<open>now\<close>.\<close>

definition run :: "real \<Rightarrow> cycle list \<Rightarrow> service \<Rightarrow> run_status \<times> service" where
  "run now cs s = run_loop cs (s\<lparr>timetable := (timetable s)\<lparr>tt_last := now\<rparr>\<rparr>)"

section \<open>Collectors backed by a fetched dataset\<close>

text \<open>
  A Python \<^verbatim>\<open>dict\<close> is a list of pairs in insertion order with distinct keys; assigning to
  a key that is present keeps its place.
\<close>

fun dict_set :: "'k \<Rightarrow> 'v \<Rightarrow> ('k \<times> 'v) list \<Rightarrow> ('k \<times> 'v) list" where
  "dict_set k v [] = [(k, v)]"
| "dict_set k v (p # ps) = (if fst p = k then (k, v) # ps else p # dict_set k v ps)"

record line_def =
  line_name :: string
  line_options :: string

record chart_def =
  options :: string
  lines :: "line_def list"

text \<open>
  The fields of \<^verbatim>\<open>UrlService\<close> that \<^verbatim>\<open>create\<close> and \<^verbatim>\<open>update\<close> read: \<^verbatim>\<open>__module__\<close>,
  \<^verbatim>\<open>name\<close> (a string after \<^verbatim>\<open>check\<close>), \<^verbatim>\<open>priority\<close>, \<^verbatim>\<open>update_every\<close>, \<^verbatim>\<open>charts\<close>,
  \<^verbatim>\<open>order\<close> and \<^verbatim>\<open>definitions\<close>, and the texts printed.
\<close>

record url_service =
  url_module :: string
  url_name :: string
  url_priority :: int
  url_update_every :: int
  url_charts :: "(string \<times> chart_def) list"
  order :: "string list"
  definitions :: "(string \<times> string list) list"
  printed :: "string list"

type_synonym dataset = "(string \<times> pyval) list"

text \<open>The first loop of \<^verbatim>\<open>UrlService.create\<close>.\<close>

definition build_definitions :: "url_service \<Rightarrow> url_service" where
  "build_definitions u =
     u\<lparr>definitions :=
         foldl (\<lambda>defs name.
                  case map_of (url_charts u) name of
                    None \<Rightarrow> defs
                  | Some c \<Rightarrow> dict_set name (map line_name (lines c)) defs)
               (definitions u) (order u)\<rparr>"

text \<open>
  The second loop of \<^verbatim>\<open>UrlService.create\<close> from the state \<open>(idx, data_stream)\<close>;
  \<^verbatim>\<open>self.charts[name]\<close> raises \<^verbatim>\<open>KeyError\<close> for a name that is not a key.
\<close>

fun emit_charts ::
  "url_service \<Rightarrow> dataset \<Rightarrow> string list \<Rightarrow> int \<times> string \<Rightarrow> exn + int \<times> string" where
  "emit_charts u data [] (idx, ds) = Inr (idx, ds)"
| "emit_charts u data (name # names) (idx, ds) =
     (case map_of (url_charts u) name of
        None \<Rightarrow> Inl (KeyError name)
      | Some c \<Rightarrow>
          let header = ''CHART '' @ url_module u @ ''_'' @ url_name u @ ''.'' @ name @ '' ''
                         @ options c @ '' '' @ str_int (url_priority u + idx) @ '' ''
                         @ str_int (url_update_every u);
              content = foldl (\<lambda>content l.
                                 if line_name l \<in> fst ` set data
                                 then content @ [nl] @ ''DIMENSION '' @ line_name l @ '' ''
                                        @ line_options l
                                 else content)
                              [] (lines c)
          in if length content > 0
             then emit_charts u data names (idx + 1, ds @ header @ content @ [nl])
             else emit_charts u data names (idx, ds))"

text \<open>
  \<^verbatim>\<open>UrlService.create\<close>; the argument \<open>fetched\<close> is what \<^verbatim>\<open>_formatted_data()\<close> returns,
  \<open>None\<close> for Python's \<^verbatim>\<open>None\<close>.
\<close>

definition create :: "dataset option \<Rightarrow> url_service \<Rightarrow> (exn + bool) \<times> url_service" where
  "create fetched u =
     (let u1 = build_definitions u
      in case fetched of
           None \<Rightarrow> (Inr False, u1)
         | Some data \<Rightarrow>
             (case emit_charts u1 data (order u1) (0, []) of
                Inl e \<Rightarrow> (Inl e, u1)
              | Inr (idx, ds) \<Rightarrow>
                  (Inr (\<not> idx = 0), u1\<lparr>printed := printed u1 @ [ds @ [nl]]\<rparr>)))"

text \<open>The block \<^verbatim>\<open>UrlService.update\<close> adds to its stream for one entry of \<^verbatim>\<open>definitions\<close>.\<close>

definition update_block :: "url_service \<Rightarrow> dataset \<Rightarrow> int \<Rightarrow> string \<times> string list \<Rightarrow> string" where
  "update_block u data interval entry =
     (let header = ''BEGIN '' @ url_module u @ ''_'' @ url_name u @ ''.'' @ fst entry @ '' ''
                     @ str_int interval;
          c = foldl (\<lambda>c dim.
                       case map_of data dim of
                         None \<Rightarrow> c
                       | Some v \<Rightarrow> c @ [nl] @ ''SET '' @ dim @ '' = '' @ py_str v)
                    [] (snd entry)
      in if length c \<noteq> 0 then header @ c @ [nl] @ ''END'' @ [nl] else [])"

text \<open>\<^verbatim>\<open>UrlService.update\<close>.\<close>

definition update :: "dataset option \<Rightarrow> int \<Rightarrow> url_service \<Rightarrow> bool \<times> url_service" where
  "update fetched interval u =
     (case fetched of
        None \<Rightarrow> (False, u)
      | Some data \<Rightarrow>
          (True,
           u\<lparr>printed := printed u
                @ [foldl (\<lambda>ds entry. ds @ update_block u data interval entry) [] (definitions u)
                   @ [nl]]\<rparr>))"

section \<open>Construction and the runs the properties speak of\<close>

text \<open>
  \<^verbatim>\<open>BaseService.__init__\<close> for a configuration holding \<^verbatim>\<open>update_every\<close>, \<^verbatim>\<open>priority\<close>
  and \<^verbatim>\<open>retries\<close> as integers, constructed when the clock reads \<open>now\<close>.
\<close>

definition init :: "int \<Rightarrow> int \<Rightarrow> int \<Rightarrow> real \<Rightarrow> string + service" where
  "init upd prio r now =
     create_timetable now None
       \<lparr>data_stream = [], retries = r, retries_left = r, priority = prio, update_every = upd,
        chart_name = [], dimensions = [], charts = [],
        timetable = \<lparr>tt_last = 0, tt_next = 0, tt_freq = 0\<rparr>,
        msg_log = [], stdout = []\<rparr>"

text \<open>
  The service that \<^verbatim>\<open>{'update_every': 1, 'priority': 140000, 'retries': 2}\<close> gives when
  the clock reads 0.5.
\<close>

definition example_service :: service where
  "example_service =
     \<lparr>data_stream = [], retries = 2, retries_left = 2, priority = 140000, update_every = 1,
      chart_name = [], dimensions = [], charts = [],
      timetable = \<lparr>tt_last = 1 / 2, tt_next = 1, tt_freq = 1\<rparr>,
      msg_log = [], stdout = []\<rparr>"

text \<open>The state after the cycles \<open>cs\<close>, each one call of \<^verbatim>\<open>_run_once\<close>.\<close>

definition after_cycles :: "cycle list \<Rightarrow> service \<Rightarrow> service" where
  "after_cycles cs s = foldl (\<lambda>s c. snd (run_once c s)) s cs"

text \<open>
  Every cycle of the list is due when it starts, has \<^verbatim>\<open>update\<close> succeed, and ends
  before the boundary that follows the one it was due at.
\<close>

fun timely :: "cycle list \<Rightarrow> service \<Rightarrow> bool" where
  "timely [] s = True"
| "timely (c # cs) s =
     (tt_next (timetable s) \<le> t_start c \<and> outcome c = Updated \<and> t_start c \<le> t_end c
      \<and> t_end c < tt_next (timetable s) + of_int (tt_freq (timetable s))
      \<and> timely cs (snd (run_once c s)))"

text \<open>A cycle that is due at \<open>t\<close> and in which \<^verbatim>\<open>update\<close> returns false.\<close>

definition failing :: "real \<Rightarrow> cycle" where
  "failing t = \<lparr>t_start = t, outcome = Failed, t_end = t, t_wake = t\<rparr>"

text \<open>
  A collector with one chart \<^verbatim>\<open>c\<close> that declares the dimensions \<^verbatim>\<open>m1\<close> and \<^verbatim>\<open>m2\<close>.
\<close>

definition example_url :: url_service where
  "example_url =
     \<lparr>url_module = ''mod'', url_name = ''local'', url_priority = 60000, url_update_every = 1,
      url_charts = [(''c'', \<lparr>options = ''opts'',
                              lines = [\<lparr>line_name = ''m1'', line_options = ''o1''\<rparr>,
                                       \<lparr>line_name = ''m2'', line_options = ''o2''\<rparr>]\<rparr>)],
      order = [''c''], definitions = [], printed = []\<rparr>"

section \<open>Evaluation of the decimal rendering\<close>

lemma str_nat_numeral [simp]:
  "str_nat (numeral k) =
     (if (numeral k :: nat) < 10 then [''0123456789'' ! numeral k]
      else str_nat (numeral k div 10) @ [''0123456789'' ! (numeral k mod 10)])"
  by (rule str_nat.simps)

lemma str_nat_0 [simp]: "str_nat 0 = ''0''"
  by (simp add: str_nat.simps [of 0])

lemma str_nat_1 [simp]: "str_nat (Suc 0) = ''1''"
  by (simp add: str_nat.simps [of "Suc 0"])

lemma init_example: "init 1 140000 2 (1 / 2) = Inr example_service"
  by (simp add: init_def create_timetable_def fmod_def example_service_def)

section \<open>The quoting rule of the encoder\<close>

lemma foldl_line_param:
  "foldl (\<lambda>ds p. ds @ line_param p) acc ps = acc @ concat (map line_param ps)"
  by (induction ps arbitrary: acc) simp_all

lemma sq_not_space: "sq \<noteq> CHR '' ''"
  by (simp add: sq_def)

lemma data_stream_line:
  "data_stream (line instruction params s)
     = data_stream s @ instruction @ concat (map line_param params) @ [nl]"
  by (simp add: line_def foldl_line_param)

lemma line_other_fields:
  "charts (line i ps s) = charts s" "dimensions (line i ps s) = dimensions s"
  "msg_log (line i ps s) = msg_log s" "stdout (line i ps s) = stdout s"
  "retries (line i ps s) = retries s" "retries_left (line i ps s) = retries_left s"
  by (simp_all add: line_def)

text \<open>
  C6, as the code has it. A statement built by \<^verbatim>\<open>_line\<close>, as those of \<^verbatim>\<open>chart\<close>,
  \<^verbatim>\<open>dimension\<close>, \<^verbatim>\<open>begin\<close>, \<^verbatim>\<open>set\<close> and \<^verbatim>\<open>end\<close> are, is the instruction and
  then, for each field, a space and the field's text: the two-character token of two
  single quotes when the text is empty, the text wrapped in single quotes when it contains
  a space, and the text itself otherwise.
\<close>

theorem line_quotes_fields:
  "data_stream (line instruction params s)
     = data_stream s @ instruction
       @ concat (map (\<lambda>p. '' '' @ (if py_str p = [] then [sq, sq]
                                    else if CHR '' '' \<in> set (py_str p) then [sq] @ py_str p @ [sq]
                                    else py_str p)) params)
       @ [nl]"
proof -
  have eq: "line_param = (\<lambda>p. '' '' @ (if py_str p = [] then [sq, sq]
                                    else if CHR '' '' \<in> set (py_str p) then [sq] @ py_str p @ [sq]
                                    else py_str p))"
    using sq_not_space by (intro ext) (simp add: line_param_def Let_def)
  show ?thesis
    unfolding data_stream_line eq by (rule refl)
qed

text \<open>
  The examples of the specification: a dimension whose display name is \<^verbatim>\<open>has space\<close>,
  and a chart whose title is empty.
\<close>

lemma quoting_examples:
  "data_stream (snd (dimension ''d'' (Some ''has space'') ''absolute'' (PInt 1) (PInt 1) False
                       example_service))
     = ''DIMENSION d '' @ [sq] @ ''has space'' @ [sq] @ '' absolute 1 1'' @ [nl]"
  "data_stream (chart ''c'' (PStr ''n'') (PStr []) (PStr ''u'') (PStr ''f'') (PStr ''g'')
                  (PStr ''line'') (PInt 140000) (PInt 1) example_service)
     = ''CHART c n '' @ [sq, sq] @ '' u f g line 140000 1'' @ [nl]"
  by (simp_all add: dimension_def check_number_def chart_def line_def line_param_def
        example_service_def str_int_def sq_def)

text \<open>
  \<^verbatim>\<open>UrlService.create\<close> builds its statements by concatenation: for a chart table whose
  line is named \<^verbatim>\<open>has space\<close> it prints the name as it is, without quotes.
\<close>

theorem create_prints_unquoted_field:
  "printed (snd (create (Some [(''has space'', PInt 1)])
      (example_url\<lparr>url_charts :=
          [(''c'', \<lparr>options = ''opts'',
                    lines = [\<lparr>line_name = ''has space'', line_options = ''o1''\<rparr>]\<rparr>)]\<rparr>)))
     = [''CHART mod_local.c opts 60000 1'' @ [nl] @ ''DIMENSION has space o1'' @ [nl] @ [nl]]
   \<and> printed (snd (create (Some [(''has space'', PInt 1)])
      (example_url\<lparr>url_charts :=
          [(''c'', \<lparr>options = ''opts'',
                    lines = [\<lparr>line_name = ''has space'', line_options = ''o1''\<rparr>]\<rparr>)]\<rparr>)))
     \<noteq> [''CHART mod_local.c opts 60000 1'' @ [nl] @ ''DIMENSION '' @ [sq] @ ''has space'' @ [sq]
          @ '' o1'' @ [nl] @ [nl]]"
  by (simp add: create_def build_definitions_def example_url_def str_int_def Let_def sq_def)

section \<open>Validation in the encoder\<close>

lemma int_of_string_error: "int_of_string s = Inl e \<Longrightarrow> e = ValueError"
  by (simp add: int_of_string_def Let_def split: if_splits)

lemma py_int_error: "py_int v = Inl e \<Longrightarrow> e = TypeError \<or> e = ValueError"
  by (cases v) (auto dest: int_of_string_error)

lemma error_log_fields:
  "data_stream (error_log ps s) = data_stream s" "charts (error_log ps s) = charts s"
  "dimensions (error_log ps s) = dimensions s" "chart_name (error_log ps s) = chart_name s"
  "msg_log (error_log ps s) = msg_log s @ [MsgError (PStr (chart_name s) # ps)]"
  by (simp_all add: error_log_def)

text \<open>
  Only \<^verbatim>\<open>chart\<close> registers a chart id and only \<^verbatim>\<open>dimension\<close> a dimension id: the lists
  tested by \<^verbatim>\<open>begin\<close> and \<^verbatim>\<open>set\<close> hold the ids passed to them so far.
\<close>

lemma charts_chart:
  "charts (chart type_id name title units family category charttype prio upd s)
     = charts s @ [type_id]"
  by (simp add: chart_def line_other_fields)

lemma charts_other_operations:
  "charts (snd (dimension d name alg m dv h s)) = charts s"
  "charts (snd (begin_stmt t us s)) = charts s"
  "charts (snd (set_value d v s)) = charts s"
  "charts (end_stmt s) = charts s"
  "charts (commit s) = charts s"
  by (simp_all add: dimension_def check_number_def begin_stmt_def set_value_def end_stmt_def
        commit_def line_other_fields error_log_fields Let_def split: sum.splits prod.splits)

lemma dimensions_other_operations:
  "dimensions (chart type_id name title units family category charttype prio upd s)
     = dimensions s"
  "dimensions (snd (begin_stmt t us s)) = dimensions s"
  "dimensions (snd (set_value d v s)) = dimensions s"
  "dimensions (end_stmt s) = dimensions s"
  "dimensions (commit s) = dimensions s"
  by (simp_all add: chart_def begin_stmt_def set_value_def end_stmt_def
        commit_def line_other_fields error_log_fields Let_def split: sum.splits prod.splits)

text \<open>
  C4, as the code has it. For a chart id that is not registered, \<^verbatim>\<open>begin\<close> logs the
  error, returns false and leaves the whole state but the log as it was. For a registered
  id and a \<^verbatim>\<open>microseconds\<close> that \<^verbatim>\<open>int()\<close> accepts, it returns true and appends the
  statement \<^verbatim>\<open>BEGIN id microseconds\<close>. For a registered id and a \<^verbatim>\<open>microseconds\<close> that
  \<^verbatim>\<open>int()\<close> rejects with \<^verbatim>\<open>TypeError\<close>, it logs the error, returns true and appends the
  statement with the field rendered as the empty-field token of two single quotes.
\<close>

theorem begin_stmt_cases:
  "(type_id \<notin> set (charts s) \<longrightarrow>
      begin_stmt type_id microseconds s
        = (Inr False, s\<lparr>msg_log := msg_log s @ [MsgError [PStr (chart_name s),
                                                         PStr ''wrong chart type_id:'',
                                                         PStr type_id]]\<rparr>))
   \<and> (type_id \<in> set (charts s) \<and> py_int microseconds = Inr i \<longrightarrow>
      fst (begin_stmt type_id microseconds s) = Inr True
      \<and> msg_log (snd (begin_stmt type_id microseconds s)) = msg_log s
      \<and> data_stream (snd (begin_stmt type_id microseconds s))
          = data_stream s @ ''BEGIN'' @ line_param (PStr type_id) @ line_param microseconds @ [nl])
   \<and> (type_id \<in> set (charts s) \<and> py_int microseconds = Inl TypeError \<longrightarrow>
      fst (begin_stmt type_id microseconds s) = Inr True
      \<and> msg_log (snd (begin_stmt type_id microseconds s))
          = msg_log s @ [MsgError [PStr (chart_name s),
                                   PStr ''malformed begin statement: microseconds are not a number:'',
                                   microseconds]]
      \<and> data_stream (snd (begin_stmt type_id microseconds s))
          = data_stream s @ ''BEGIN'' @ line_param (PStr type_id) @ '' '' @ [sq, sq] @ [nl])"
  using sq_not_space
  by (auto simp add: begin_stmt_def error_log_def data_stream_line line_other_fields
        line_param_def Let_def)

theorem begin_stmt_cases_witness:
  "begin_stmt ''c'' (PInt 7) example_service
     = (Inr False, example_service\<lparr>msg_log := [MsgError [PStr [], PStr ''wrong chart type_id:'',
                                                         PStr ''c'']]\<rparr>)
   \<and> data_stream (snd (begin_stmt ''c'' (PInt 7) (example_service\<lparr>charts := [''c'']\<rparr>)))
       = ''BEGIN c 7'' @ [nl]
   \<and> data_stream (snd (begin_stmt ''c'' PNone (example_service\<lparr>charts := [''c'']\<rparr>)))
       = ''BEGIN c '' @ [sq, sq] @ [nl]"
  using begin_stmt_cases [of "''c''" example_service "PInt 7" 7]
    begin_stmt_cases [of "''c''" "example_service\<lparr>charts := [''c'']\<rparr>" "PInt 7" 7]
    begin_stmt_cases [of "''c''" "example_service\<lparr>charts := [''c'']\<rparr>" PNone 0]
  by (simp add: example_service_def line_param_def str_int_def)

text \<open>
  After \<^verbatim>\<open>chart('c', ...)\<close>, the call \<^verbatim>\<open>begin('c', None)\<close> appends a statement that still
  has a second field, the token of two single quotes: the field is not left out.
\<close>

theorem begin_stmt_keeps_empty_field:
  "data_stream (snd (begin_stmt ''c'' PNone
      (chart ''c'' (PStr ''n'') (PStr ''t'') (PStr ''u'') (PStr ''f'') (PStr ''g'')
         (PStr ''line'') (PInt 140000) (PInt 1) example_service)))
     = ''CHART c n t u f g line 140000 1'' @ [nl] @ ''BEGIN c '' @ [sq, sq] @ [nl]
   \<and> data_stream (snd (begin_stmt ''c'' PNone
      (chart ''c'' (PStr ''n'') (PStr ''t'') (PStr ''u'') (PStr ''f'') (PStr ''g'')
         (PStr ''line'') (PInt 140000) (PInt 1) example_service)))
     \<noteq> ''CHART c n t u f g line 140000 1'' @ [nl] @ ''BEGIN c'' @ [nl]"
  by (simp add: begin_stmt_def chart_def line_def line_param_def error_log_def
        example_service_def str_int_def sq_def nl_def)

text \<open>What \<^verbatim>\<open>set\<close> does in each case.\<close>

lemma set_value_unregistered:
  "dim_id \<notin> set (dimensions s) \<Longrightarrow>
     fst (set_value dim_id v s) = Inr False
     \<and> data_stream (snd (set_value dim_id v s)) = data_stream s"
  by (simp add: set_value_def error_log_fields)

lemma set_value_type_error:
  "py_int v = Inl TypeError \<Longrightarrow>
     fst (set_value dim_id v s) = Inr False
     \<and> data_stream (snd (set_value dim_id v s)) = data_stream s"
  by (simp add: set_value_def error_log_fields)

lemma set_value_integer:
  "dim_id \<in> set (dimensions s) \<Longrightarrow> py_int v = Inr i \<Longrightarrow>
     fst (set_value dim_id v s) = Inr True
     \<and> data_stream (snd (set_value dim_id v s))
         = data_stream s @ ''SET'' @ line_param (PStr dim_id) @ '' ='' @ line_param (PStr (str_int i))
           @ [nl]"
  by (simp add: set_value_def data_stream_line line_param_def)

lemma set_value_value_error:
  "dim_id \<in> set (dimensions s) \<Longrightarrow> py_int v = Inl ValueError \<Longrightarrow>
     set_value dim_id v s = (Inl ValueError, s)"
  by (simp add: set_value_def)

text \<open>
  C5 at the input \<^verbatim>\<open>dimension('d'); set('d', 'abc')\<close>: the value cannot be coerced to an
  integer, and \<^verbatim>\<open>set\<close> does not return false: \<^verbatim>\<open>int('abc')\<close> raises \<^verbatim>\<open>ValueError\<close>,
  which the handler for \<^verbatim>\<open>TypeError\<close> does not catch, so the exception leaves \<^verbatim>\<open>set\<close>
  (the state unchanged).
\<close>

theorem set_value_non_numeric_string_raises:
  "fst (dimension ''d'' None ''absolute'' (PInt 1) (PInt 1) False example_service) = Inr ()
   \<and> set_value ''d'' (PStr ''abc'')
        (snd (dimension ''d'' None ''absolute'' (PInt 1) (PInt 1) False example_service))
      = (Inl ValueError,
         snd (dimension ''d'' None ''absolute'' (PInt 1) (PInt 1) False example_service))"
  by (simp add: set_value_def dimension_def check_number_def line_other_fields
        int_of_string_def strip_def is_space_def is_digit_def)

lemma check_number_accepts:
  "py_int v \<noteq> Inl ValueError \<Longrightarrow>
     check_number complaint v s
       = (if py_int v = Inl TypeError
          then (Inr (PInt 1), error_log [PStr complaint, v] s)
          else (Inr v, s))"
  by (auto simp add: check_number_def dest: py_int_error split: sum.splits)

text \<open>
  C8, as the code has it. When \<^verbatim>\<open>int()\<close> raises no \<^verbatim>\<open>ValueError\<close> for the multiplier
  and the divisor, \<^verbatim>\<open>dimension\<close> registers the id and appends one DIMENSION statement:
  the id, the name (the id when none is given), the algorithm (\<^verbatim>\<open>absolute\<close> when it is
  not one of the four), the multiplier and the divisor (each replaced by 1 when \<^verbatim>\<open>int()\<close>
  rejects it with \<^verbatim>\<open>TypeError\<close>), and the field \<^verbatim>\<open>hidden\<close> last exactly when \<^verbatim>\<open>hidden\<close>
  is true. The log receives one entry for each replaced multiplier or divisor and nothing
  else: the replaced algorithm is not logged.
\<close>

theorem dimension_substitutes_defaults:
  assumes "py_int multiplier \<noteq> Inl ValueError" and "py_int divisor \<noteq> Inl ValueError"
  shows "fst (dimension dim_id name algorithm multiplier divisor hidden s) = Inr ()
    \<and> data_stream (snd (dimension dim_id name algorithm multiplier divisor hidden s))
        = data_stream s @ ''DIMENSION''
          @ concat (map line_param
              ([PStr dim_id,
                PStr (case name of None \<Rightarrow> dim_id | Some n \<Rightarrow> n),
                PStr (if algorithm \<in> {''absolute'', ''incremental'', ''percentage-of-absolute-row'',
                                       ''percentage-of-incremental-row''}
                      then algorithm else ''absolute''),
                if py_int multiplier = Inl TypeError then PInt 1 else multiplier,
                if py_int divisor = Inl TypeError then PInt 1 else divisor]
               @ (if hidden then [PStr ''hidden''] else [])))
          @ [nl]
    \<and> msg_log (snd (dimension dim_id name algorithm multiplier divisor hidden s))
        = msg_log s
          @ (if py_int multiplier = Inl TypeError
             then [MsgError [PStr (chart_name s),
                             PStr ''malformed dimension: multiplier is not a number:'', multiplier]]
             else [])
          @ (if py_int divisor = Inl TypeError
             then [MsgError [PStr (chart_name s),
                             PStr ''malformed dimension: divisor is not a number:'', divisor]]
             else [])
    \<and> dimensions (snd (dimension dim_id name algorithm multiplier divisor hidden s))
        = dimensions s @ [dim_id]"
  using assms
  by (simp add: dimension_def check_number_accepts Let_def data_stream_line line_other_fields
        error_log_fields)

theorem dimension_substitutes_defaults_witness:
  "py_int PNone \<noteq> Inl ValueError \<and> py_int (PStr ''10'') \<noteq> Inl ValueError
   \<and> data_stream (snd (dimension ''d'' None ''gauge'' PNone (PStr ''10'') True example_service))
       = ''DIMENSION d d absolute 1 10 hidden'' @ [nl]
   \<and> msg_log (snd (dimension ''d'' None ''gauge'' PNone (PStr ''10'') True example_service))
       = [MsgError [PStr [], PStr ''malformed dimension: multiplier is not a number:'', PNone]]"
proof -
  have m: "py_int PNone \<noteq> Inl ValueError"
    by simp
  have d: "py_int (PStr ''10'') \<noteq> Inl ValueError"
    by (simp add: int_of_string_def strip_def is_space_def is_digit_def)
  have t: "py_int (PStr ''10'') \<noteq> Inl TypeError"
    by (simp add: int_of_string_def strip_def is_space_def is_digit_def)
  show ?thesis
    using m d t
      dimension_substitutes_defaults [OF m d, of "''d''" None "''gauge''" True example_service]
    by (simp add: line_param_def example_service_def str_int_def)
qed

text \<open>
  The call \<^verbatim>\<open>dimension('d', algorithm='gauge')\<close> replaces the algorithm by \<^verbatim>\<open>absolute\<close>
  and logs nothing.
\<close>

theorem dimension_correction_not_logged:
  "dimension ''d'' None ''gauge'' (PInt 1) (PInt 1) False example_service
     = (Inr (), example_service\<lparr>data_stream := ''DIMENSION d d absolute 1 1'' @ [nl],
                                 dimensions := [''d'']\<rparr>)
   \<and> msg_log (snd (dimension ''d'' None ''gauge'' (PInt 1) (PInt 1) False example_service)) = []"
  by (simp add: dimension_def check_number_def line_def line_param_def example_service_def
        str_int_def)

lemma dimension_value_error:
  "dimension ''d'' None ''absolute'' (PStr ''abc'') (PInt 1) False example_service
     = (Inl ValueError, example_service)"
  by (simp add: dimension_def check_number_def int_of_string_def strip_def is_space_def
        is_digit_def)

section \<open>Retries and faults in the scheduler loop\<close>

lemma run_once_failed:
  "tt_next (timetable s) \<le> t_start c \<Longrightarrow> outcome c = Failed \<Longrightarrow> run_once c s = (Inr False, s)"
  by (simp add: run_once_def Let_def)

lemma run_once_raised:
  "tt_next (timetable s) \<le> t_start c \<Longrightarrow> outcome c = Raised m \<Longrightarrow> run_once c s = (Inl m, s)"
  by (simp add: run_once_def Let_def)

lemma run_once_not_due:
  "t_start c < tt_next (timetable s) \<Longrightarrow> run_once c s = (Inr True, s)"
  by (simp add: run_once_def)

text \<open>
  A failed cycle decrements \<^verbatim>\<open>retries\<close>, and the test that follows reads
  \<^verbatim>\<open>retries_left\<close>, which no failed cycle changes: from a positive \<^verbatim>\<open>retries_left\<close>, any
  number of consecutive failures leaves the loop running.
\<close>

lemma run_loop_failures_keep_looping:
  assumes "0 < retries_left s" and "0 \<le> tt_freq (timetable s)"
    and "\<forall>c \<in> set cs. tt_next (timetable s) \<le> t_start c \<and> outcome c = Failed"
  shows "run_loop cs s = (Looping, s\<lparr>retries := retries s - int (length cs)\<rparr>)"
  using assms
proof (induction cs arbitrary: s)
  case Nil
  then show ?case by simp
next
  case (Cons c cs)
  have once: "run_once c s = (Inr False, s)"
    using Cons.prems(3) by (simp add: run_once_failed)
  have "run_loop cs (s\<lparr>retries := retries s - 1\<rparr>)
          = (Looping, s\<lparr>retries := retries s - 1\<rparr>
                        \<lparr>retries := retries (s\<lparr>retries := retries s - 1\<rparr>) - int (length cs)\<rparr>)"
    using Cons.prems by (intro Cons.IH) simp_all
  then show ?case
    using once Cons.prems(1,2) by (simp add: Let_def)
qed

text \<open>
  C1 at \<^verbatim>\<open>retries = 2\<close>. Two consecutive cycles in which \<^verbatim>\<open>update\<close> returns false do not
  end the loop: \<^verbatim>\<open>retries\<close> has gone down to 0 and \<^verbatim>\<open>retries_left\<close> is still 2. And
  after one failed cycle and one successful cycle \<^verbatim>\<open>retries_left\<close> is 1, not 2.
\<close>

theorem run_never_exhausts_retries:
  "run 1 [failing 1, failing 2] example_service
     = (Looping, example_service\<lparr>retries := 0,
                                 timetable := \<lparr>tt_last = 1, tt_next = 1, tt_freq = 1\<rparr>\<rparr>)
   \<and> retries_left (snd (run 1 [failing 1, failing 2] example_service)) = 2
   \<and> retries_left (snd (run 1 [failing 1,
                                \<lparr>t_start = 2, outcome = Updated, t_end = 9 / 4, t_wake = 5 / 2\<rparr>]
                          example_service)) = 1"
  by (simp add: run_def run_once_def failing_def example_service_def fmod_def Let_def)

text \<open>
  C7, as the code has it. When a cycle is due and \<^verbatim>\<open>update\<close> raises an exception that
  is an instance of \<^verbatim>\<open>Exception\<close>, the loop logs the exception and \<^verbatim>\<open>run\<close> returns at
  once, whatever iterations would follow and whatever the retry counters hold; but for the
  log entry the state, the two retry counters included, is as it was. When the exception
  is no instance of \<^verbatim>\<open>Exception\<close>, it is not caught: it leaves \<^verbatim>\<open>run\<close>, nothing is
  logged, and the state is as it was.
\<close>

theorem run_stops_on_fault:
  assumes "tt_next (timetable s) \<le> t_start c"
  shows "(outcome c = Raised (Exception m) \<longrightarrow>
            run_loop (c # cs) s
              = (Returned,
                 s\<lparr>msg_log := msg_log s @ [MsgError [PStr (''Something wrong: '' @ m)]]\<rparr>))
       \<and> (outcome c = Raised (BaseException m) \<longrightarrow> run_loop (c # cs) s = (Uncaught, s))"
  using assms by (simp add: run_once_raised)

theorem run_stops_on_fault_witness:
  "tt_next (timetable example_service) \<le> 1
   \<and> run_loop [\<lparr>t_start = 1, outcome = Raised (Exception ''boom''), t_end = 1, t_wake = 1\<rparr>,
               failing 2] example_service
      = (Returned, example_service\<lparr>msg_log := [MsgError [PStr ''Something wrong: boom'']]\<rparr>)
   \<and> retries (example_service\<lparr>msg_log := [MsgError [PStr ''Something wrong: boom'']]\<rparr>) = 2
   \<and> retries_left (example_service\<lparr>msg_log := [MsgError [PStr ''Something wrong: boom'']]\<rparr>) = 2
   \<and> run_loop [\<lparr>t_start = 1, outcome = Raised (BaseException ''exit''), t_end = 1, t_wake = 1\<rparr>,
               failing 2] example_service
      = (Uncaught, example_service)"
proof -
  have due: "tt_next (timetable example_service)
               \<le> t_start \<lparr>t_start = 1, outcome = Raised e, t_end = 1, t_wake = 1\<rparr>" for e
    by (simp add: example_service_def)
  show ?thesis
    using due [of "Exception ''boom''"]
      run_stops_on_fault [OF due [of "Exception ''boom''"], of "''boom''" "[failing 2]"]
      run_stops_on_fault [OF due [of "BaseException ''exit''"], of "''exit''" "[failing 2]"]
    by (simp add: example_service_def)
qed

text \<open>
  In a due cycle, \<^verbatim>\<open>update\<close> raises \<^verbatim>\<open>SystemExit\<close>: \<^verbatim>\<open>run\<close> does not catch it and logs
  nothing.
\<close>

theorem run_does_not_catch_system_exit:
  "run_loop [\<lparr>t_start = 1, outcome = Raised (BaseException ''SystemExit''), t_end = 1,
               t_wake = 1\<rparr>, failing 2] example_service
     = (Uncaught, example_service)
   \<and> fst (run_loop [\<lparr>t_start = 1, outcome = Raised (BaseException ''SystemExit''), t_end = 1,
                      t_wake = 1\<rparr>, failing 2] example_service) \<noteq> Returned
   \<and> msg_log (snd (run_loop [\<lparr>t_start = 1, outcome = Raised (BaseException ''SystemExit''),
                               t_end = 1, t_wake = 1\<rparr>, failing 2] example_service)) = []"
  by (simp add: run_once_def example_service_def Let_def)

section \<open>The next due time\<close>

lemma floor_between_multiples:
  fixes x :: real and f k :: int
  assumes "0 < f" and "of_int (f * k) \<le> x" and "x < of_int (f * k) + of_int f"
  shows "\<lfloor>x / of_int f\<rfloor> = k"
proof (rule floor_unique)
  have pos: "0 < (of_int f :: real)"
    using assms(1) by simp
  show "of_int k \<le> x / of_int f"
    using assms(2) pos by (simp add: pos_le_divide_eq mult.commute)
  show "x / of_int f < of_int k + 1"
    using assms(3) pos by (simp add: pos_divide_less_eq algebra_simps)
qed

text \<open>\<^verbatim>\<open>now - (now % freq) + freq\<close> is the first multiple of \<^verbatim>\<open>freq\<close> after \<^verbatim>\<open>now\<close>.\<close>

lemma next_boundary:
  fixes x :: real and f :: int
  shows "x - fmod x f + of_int f = of_int (f * (\<lfloor>x / of_int f\<rfloor> + 1))"
  by (simp add: fmod_def algebra_simps)

lemma run_once_updated:
  assumes "tt_next (timetable s) \<le> t_start c" and "outcome c = Updated"
    and "tt_freq (timetable s) \<noteq> 0"
  shows "fst (run_once c s) = Inr True"
    and "tt_next (timetable (snd (run_once c s)))
           = t_end c - fmod (t_end c) (tt_freq (timetable s)) + of_int (tt_freq (timetable s))"
    and "tt_freq (timetable (snd (run_once c s))) = tt_freq (timetable s)"
    and "tt_last (timetable (snd (run_once c s))) = t_start c"
  using assms by (simp_all add: run_once_def Let_def)

lemma after_cycles_Cons: "after_cycles (c # cs) s = after_cycles cs (snd (run_once c s))"
  by (simp add: after_cycles_def)

lemma timely_advances:
  assumes "0 < f" and "tt_freq (timetable s) = f" and "tt_next (timetable s) = of_int (f * k)"
    and "timely cs s"
  shows "tt_next (timetable (after_cycles cs s)) = of_int (f * (k + int (length cs)))"
  using assms
proof (induction cs arbitrary: s k)
  case Nil
  then show ?case by (simp add: after_cycles_def)
next
  case (Cons c cs)
  let ?s' = "snd (run_once c s)"
  have due: "tt_next (timetable s) \<le> t_start c" and upd: "outcome c = Updated"
    and lo: "of_int (f * k) \<le> t_end c" and hi: "t_end c < of_int (f * k) + of_int f"
    and rest: "timely cs ?s'"
    using Cons.prems by auto
  have nz: "tt_freq (timetable s) \<noteq> 0"
    using Cons.prems(1,2) by simp
  have fl: "\<lfloor>t_end c / of_int f\<rfloor> = k"
    using Cons.prems(1) lo hi by (rule floor_between_multiples)
  have nxt: "tt_next (timetable ?s') = of_int (f * (k + 1))"
    using run_once_updated(2) [OF due upd nz] Cons.prems(2) fl by (simp add: next_boundary)
  have frq: "tt_freq (timetable ?s') = f"
    using run_once_updated(3) [OF due upd nz] Cons.prems(2) by simp
  have "tt_next (timetable (after_cycles cs ?s')) = of_int (f * (k + 1 + int (length cs)))"
    using Cons.prems(1) frq nxt rest by (rule Cons.IH)
  then show ?case
    by (simp add: after_cycles_Cons algebra_simps)
qed

lemma create_timetable_next:
  assumes "create_timetable now freq s0 = Inr s"
  shows "tt_next (timetable s)
           = of_int (tt_freq (timetable s) * (\<lfloor>now / of_int (tt_freq (timetable s))\<rfloor> + 1))"
  using assms by (auto simp add: create_timetable_def Let_def next_boundary split: if_splits)

text \<open>
  C3, as the code has it. From a timetable made by \<^verbatim>\<open>create_timetable\<close> with a positive
  \<^verbatim>\<open>freq\<close>, after \<open>N\<close> consecutive successful cycles of which each ends before the
  boundary that follows the one it was due at, \<^verbatim>\<open>next\<close> is its first value plus
  \<open>N\<close> times \<^verbatim>\<open>freq\<close>, whatever the latency of each cycle within that bound.
\<close>

theorem next_advances_by_freq_when_timely:
  assumes "create_timetable now freq s0 = Inr s" and "0 < tt_freq (timetable s)"
    and "timely cs s"
  shows "tt_next (timetable (after_cycles cs s))
           = tt_next (timetable s) + of_int (int (length cs) * tt_freq (timetable s))"
proof -
  let ?f = "tt_freq (timetable s)"
  let ?k = "\<lfloor>now / of_int ?f\<rfloor> + 1"
  have start: "tt_next (timetable s) = of_int (?f * ?k)"
    using assms(1) by (rule create_timetable_next)
  have "tt_next (timetable (after_cycles cs s)) = of_int (?f * (?k + int (length cs)))"
    using assms(2) refl start assms(3) by (rule timely_advances)
  then show ?thesis
    using start by (simp add: algebra_simps)
qed

theorem next_advances_by_freq_when_timely_witness:
  "create_timetable (1 / 2) None example_service = Inr example_service
   \<and> 0 < tt_freq (timetable example_service)
   \<and> timely [\<lparr>t_start = 1, outcome = Updated, t_end = 5 / 4, t_wake = 3 / 2\<rparr>,
              \<lparr>t_start = 2, outcome = Updated, t_end = 11 / 4, t_wake = 11 / 4\<rparr>] example_service
   \<and> tt_next (timetable (after_cycles
        [\<lparr>t_start = 1, outcome = Updated, t_end = 5 / 4, t_wake = 3 / 2\<rparr>,
         \<lparr>t_start = 2, outcome = Updated, t_end = 11 / 4, t_wake = 11 / 4\<rparr>] example_service)) = 3"
proof -
  have made: "create_timetable (1 / 2) None example_service = Inr example_service"
    by (simp add: create_timetable_def example_service_def fmod_def)
  have pos: "0 < tt_freq (timetable example_service)"
    by (simp add: example_service_def)
  have ontime:
    "timely [\<lparr>t_start = 1, outcome = Updated, t_end = 5 / 4, t_wake = 3 / 2\<rparr>,
             \<lparr>t_start = 2, outcome = Updated, t_end = 11 / 4, t_wake = 11 / 4\<rparr>] example_service"
    by (simp add: run_once_def example_service_def fmod_def Let_def)
  show ?thesis
    using made pos ontime next_advances_by_freq_when_timely [OF made pos ontime]
    by (simp add: example_service_def)
qed

text \<open>
  With \<^verbatim>\<open>freq = 1\<close> and \<^verbatim>\<open>next = 1\<close>, a cycle that starts at 1 and ends at 2.5 sets
  \<^verbatim>\<open>next\<close> to 3: one successful cycle, and \<^verbatim>\<open>next\<close> is not its first value plus \<^verbatim>\<open>freq\<close>.
\<close>

theorem next_skips_boundaries_after_slow_cycle:
  "create_timetable (1 / 2) (Some 1) example_service = Inr example_service
   \<and> tt_next (timetable example_service) = 1
   \<and> run_once \<lparr>t_start = 1, outcome = Updated, t_end = 5 / 2, t_wake = 5 / 2\<rparr> example_service
       = (Inr True,
          example_service
            \<lparr>timetable := \<lparr>tt_last = 1, tt_next = 3, tt_freq = 1\<rparr>,
             stdout := [''BEGIN netdata.plugin_pythond_ 500000'' @ [nl]
                        @ ''SET run_time = 1500'' @ [nl] @ ''END'' @ [nl]]\<rparr>)
   \<and> tt_next (timetable (after_cycles
                 [\<lparr>t_start = 1, outcome = Updated, t_end = 5 / 2, t_wake = 5 / 2\<rparr>] example_service))
       \<noteq> tt_next (timetable example_service) + 1 * 1"
  by (simp add: create_timetable_def after_cycles_def run_once_def example_service_def fmod_def
        trunc_def str_int_def Let_def)

section \<open>Charts derived from the fetched dataset\<close>

lemma map_of_dict_set:
  "map_of (dict_set k v ps) k' = (if k' = k then Some v else map_of ps k')"
  by (induction ps) auto

lemma map_of_build:
  "map_of (foldl (\<lambda>defs name. case map_of table name of
                                   None \<Rightarrow> defs
                                 | Some c \<Rightarrow> dict_set name (f c) defs) defs names) n
     = (if n \<in> set names \<and> map_of table n \<noteq> None then map_option f (map_of table n)
        else map_of defs n)"
  by (induction names arbitrary: defs) (auto simp add: map_of_dict_set split: option.splits)

lemma build_definitions_fields:
  "order (build_definitions u) = order u" "url_charts (build_definitions u) = url_charts u"
  "printed (build_definitions u) = printed u" "url_module (build_definitions u) = url_module u"
  "url_name (build_definitions u) = url_name u"
  by (simp_all add: build_definitions_def)

text \<open>The dataset that \<^verbatim>\<open>create\<close> fetches has no part in \<^verbatim>\<open>definitions\<close>.\<close>

lemma definitions_create: "definitions (snd (create fetched u)) = definitions (build_definitions u)"
  by (simp add: create_def Let_def split: option.splits sum.splits prod.splits)

lemma definitions_hold_declared_dimensions:
  assumes "name \<in> set (order u)" and "map_of (url_charts u) name = Some c"
  shows "map_of (definitions (snd (create fetched u))) name = Some (map line_name (lines c))"
  using assms by (simp add: definitions_create build_definitions_def map_of_build)

lemma foldl_sets:
  "foldl (\<lambda>c dim. case map_of data dim of
                     None \<Rightarrow> c
                   | Some v \<Rightarrow> c @ [nl] @ ''SET '' @ dim @ '' = '' @ py_str v) acc dims
     = acc @ concat (map (\<lambda>dim. case map_of data dim of
                                   None \<Rightarrow> []
                                 | Some v \<Rightarrow> [nl] @ ''SET '' @ dim @ '' = '' @ py_str v) dims)"
  by (induction dims arbitrary: acc) (simp_all split: option.splits)

lemma update_block_empty:
  "update_block u data interval (name, dims) = [] \<longleftrightarrow> (\<forall>d \<in> set dims. d \<notin> fst ` set data)"
  by (auto simp add: update_block_def Let_def foldl_sets map_of_eq_None_iff split: option.splits)

lemma foldl_blocks:
  "foldl (\<lambda>ds entry. ds @ g entry) acc entries = acc @ concat (map g entries)"
  by (induction entries arbitrary: acc) simp_all

text \<open>\<^verbatim>\<open>update\<close> prints the blocks of all entries of \<^verbatim>\<open>definitions\<close>, in their order.\<close>

lemma printed_update:
  "update (Some data) interval u
     = (True, u\<lparr>printed := printed u
                  @ [concat (map (update_block u data interval) (definitions u)) @ [nl]]\<rparr>)"
  by (simp add: update_def foldl_blocks)

lemma update_block_text:
  "update_block u data interval (name, dims)
     = (if \<exists>d \<in> set dims. d \<in> fst ` set data
        then ''BEGIN '' @ url_module u @ ''_'' @ url_name u @ ''.'' @ name @ '' ''
               @ str_int interval
               @ concat (map (\<lambda>d. case map_of data d of
                                      None \<Rightarrow> []
                                    | Some v \<Rightarrow> [nl] @ ''SET '' @ d @ '' = '' @ py_str v) dims)
               @ [nl] @ ''END'' @ [nl]
        else [])"
proof -
  have "update_block u data interval (name, dims) = [] \<longleftrightarrow> \<not> (\<exists>d \<in> set dims. d \<in> fst ` set data)"
    by (simp add: update_block_empty)
  then show ?thesis
    by (auto simp add: update_block_def Let_def foldl_sets)
qed

text \<open>
  C2, as the code has it. Whatever dataset \<^verbatim>\<open>create\<close> fetched, every chart of the order
  that is in the chart table is afterwards an entry of \<^verbatim>\<open>definitions\<close> with all the
  dimensions it declares. An \<^verbatim>\<open>update\<close> that follows, with the dataset \<open>data\<close>, prints
  for each entry of \<^verbatim>\<open>definitions\<close>, in their order, the statement BEGIN, a SET statement
  for each of the entry's dimensions that is a key of \<open>data\<close>, and END, when at least one
  of the dimensions is a key of \<open>data\<close>, and nothing for the entry otherwise. For the
  chart that declares \<^verbatim>\<open>m1\<close> and \<^verbatim>\<open>m2\<close>: with the dataset \<^verbatim>\<open>{"m1": 5}\<close>, \<^verbatim>\<open>create\<close>
  prints the chart with the dimension \<^verbatim>\<open>m1\<close> only, and keeps both dimensions in
  \<^verbatim>\<open>definitions\<close>.
\<close>

theorem update_emits_for_any_declared_dimension:
  assumes "name \<in> set (order u)" and "map_of (url_charts u) name = Some c"
  shows "(name, map line_name (lines c)) \<in> set (definitions (snd (create fetched u)))
    \<and> update (Some data) interval (snd (create fetched u))
        = (True,
           (snd (create fetched u))
             \<lparr>printed := printed (snd (create fetched u))
                @ [concat (map (\<lambda>entry.
                     if \<exists>d \<in> set (snd entry). d \<in> fst ` set data
                     then ''BEGIN '' @ url_module u @ ''_'' @ url_name u @ ''.'' @ fst entry @ '' ''
                            @ str_int interval
                            @ concat (map (\<lambda>d. case map_of data d of
                                                   None \<Rightarrow> []
                                                 | Some v \<Rightarrow> [nl] @ ''SET '' @ d @ '' = ''
                                                              @ py_str v)
                                          (snd entry))
                            @ [nl] @ ''END'' @ [nl]
                     else [])
                   (definitions (snd (create fetched u)))) @ [nl]]\<rparr>)
    \<and> create (Some [(''m1'', PInt 5)]) example_url
        = (Inr True,
           example_url\<lparr>definitions := [(''c'', [''m1'', ''m2''])],
                        printed := [''CHART mod_local.c opts 60000 1'' @ [nl]
                                    @ ''DIMENSION m1 o1'' @ [nl] @ [nl]]\<rparr>)"
proof -
  let ?w = "snd (create fetched u)"
  have "map_of (definitions ?w) name = Some (map line_name (lines c))"
    using assms by (rule definitions_hold_declared_dimensions)
  then have entry: "(name, map line_name (lines c)) \<in> set (definitions ?w)"
    by (rule map_of_SomeD)
  have names: "url_module ?w = url_module u" "url_name ?w = url_name u"
    by (simp_all add: create_def Let_def build_definitions_fields
          split: option.splits sum.splits prod.splits)
  have block: "update_block ?w data interval
                 = (\<lambda>entry.
                     if \<exists>d \<in> set (snd entry). d \<in> fst ` set data
                     then ''BEGIN '' @ url_module u @ ''_'' @ url_name u @ ''.'' @ fst entry @ '' ''
                            @ str_int interval
                            @ concat (map (\<lambda>d. case map_of data d of
                                                   None \<Rightarrow> []
                                                 | Some v \<Rightarrow> [nl] @ ''SET '' @ d @ '' = ''
                                                              @ py_str v)
                                          (snd entry))
                            @ [nl] @ ''END'' @ [nl]
                     else [])"
  proof (rule ext)
    fix entry :: "string \<times> string list"
    show "update_block ?w data interval entry
            = (if \<exists>d \<in> set (snd entry). d \<in> fst ` set data
                     then ''BEGIN '' @ url_module u @ ''_'' @ url_name u @ ''.'' @ fst entry @ '' ''
                            @ str_int interval
                            @ concat (map (\<lambda>d. case map_of data d of
                                                   None \<Rightarrow> []
                                                 | Some v \<Rightarrow> [nl] @ ''SET '' @ d @ '' = ''
                                                              @ py_str v)
                                          (snd entry))
                            @ [nl] @ ''END'' @ [nl]
                     else [])"
      using update_block_text [of ?w data interval "fst entry" "snd entry"]
      by (simp add: names)
  qed
  have printed: "update (Some data) interval ?w
      = (True, ?w\<lparr>printed := printed ?w
                     @ [concat (map (update_block ?w data interval) (definitions ?w)) @ [nl]]\<rparr>)"
    by (rule printed_update)
  have example: "create (Some [(''m1'', PInt 5)]) example_url
        = (Inr True,
           example_url\<lparr>definitions := [(''c'', [''m1'', ''m2''])],
                        printed := [''CHART mod_local.c opts 60000 1'' @ [nl]
                                    @ ''DIMENSION m1 o1'' @ [nl] @ [nl]]\<rparr>)"
    by (simp add: create_def build_definitions_def example_url_def str_int_def Let_def)
  show ?thesis
    using entry example unfolding printed block by simp
qed

theorem update_emits_for_any_declared_dimension_witness:
  "''c'' \<in> set (order example_url)
   \<and> (''c'', [''m1'', ''m2'']) \<in> set (definitions (snd (create (Some [(''m1'', PInt 5)]) example_url)))
   \<and> printed (snd (update (Some [(''m2'', PInt 7)]) 1000000
                      (snd (create (Some [(''m1'', PInt 5)]) example_url))))
       = [''CHART mod_local.c opts 60000 1'' @ [nl] @ ''DIMENSION m1 o1'' @ [nl] @ [nl],
          ''BEGIN mod_local.c 1000000'' @ [nl] @ ''SET m2 = 7'' @ [nl] @ ''END'' @ [nl] @ [nl]]"
proof -
  have ordered: "''c'' \<in> set (order example_url)"
    by (simp add: example_url_def)
  have declared:
    "map_of (url_charts example_url) ''c''
       = Some \<lparr>options = ''opts'',
               lines = [\<lparr>line_name = ''m1'', line_options = ''o1''\<rparr>,
                        \<lparr>line_name = ''m2'', line_options = ''o2''\<rparr>]\<rparr>"
    by (simp add: example_url_def)
  have made: "snd (create (Some [(''m1'', PInt 5)]) example_url)
        = example_url\<lparr>definitions := [(''c'', [''m1'', ''m2''])],
                       printed := [''CHART mod_local.c opts 60000 1'' @ [nl]
                                   @ ''DIMENSION m1 o1'' @ [nl] @ [nl]]\<rparr>"
    by (simp add: create_def build_definitions_def example_url_def str_int_def Let_def)
  show ?thesis
    unfolding made
    using ordered
      update_emits_for_any_declared_dimension [OF ordered declared,
        of "Some [(''m1'', PInt 5)]" "[(''m2'', PInt 7)]" 1000000, unfolded made]
    by (simp add: example_url_def str_int_def)
qed

text \<open>
  After \<^verbatim>\<open>create\<close> with the dataset \<^verbatim>\<open>{"m1": 5}\<close>, an \<^verbatim>\<open>update\<close> with the dataset
  \<^verbatim>\<open>{"m2": 7}\<close> prints a block for the chart, with a SET statement for \<^verbatim>\<open>m2\<close>.
\<close>

theorem example_url_block_for_unmatched_dimension:
  "create (Some [(''m1'', PInt 5)]) example_url
     = (Inr True,
        example_url\<lparr>definitions := [(''c'', [''m1'', ''m2''])],
                     printed := [''CHART mod_local.c opts 60000 1'' @ [nl]
                                 @ ''DIMENSION m1 o1'' @ [nl] @ [nl]]\<rparr>)
   \<and> update (Some [(''m2'', PInt 7)]) 1000000 (snd (create (Some [(''m1'', PInt 5)]) example_url))
     = (True,
        example_url\<lparr>definitions := [(''c'', [''m1'', ''m2''])],
                     printed := [''CHART mod_local.c opts 60000 1'' @ [nl]
                                 @ ''DIMENSION m1 o1'' @ [nl] @ [nl],
                                 ''BEGIN mod_local.c 1000000'' @ [nl] @ ''SET m2 = 7'' @ [nl]
                                 @ ''END'' @ [nl] @ [nl]]\<rparr>)"
  by (simp add: create_def build_definitions_def update_def update_block_def example_url_def
        str_int_def Let_def)

lemma emit_charts_missing:
  assumes "n \<in> set names" and "map_of (url_charts u) n = None"
  shows "emit_charts u data names (idx, ds)
           = Inl (KeyError (hd (filter (\<lambda>n. map_of (url_charts u) n = None) names)))"
  using assms
  by (induction names arbitrary: idx ds) (auto simp add: Let_def split: option.splits)

text \<open>
  C10, as the code has it. When the order holds a name that is not a key of the chart
  table and the fetch in \<^verbatim>\<open>create\<close> returns a dataset, \<^verbatim>\<open>create\<close> raises \<^verbatim>\<open>KeyError\<close> for
  the first such name of the order; nothing has been printed, and \<^verbatim>\<open>definitions\<close> is
  what the first loop, which skips the name, has built.
\<close>

theorem create_raises_for_missing_chart:
  assumes "name \<in> set (order u)" and "map_of (url_charts u) name = None"
  shows "create (Some data) u
           = (Inl (KeyError (hd (filter (\<lambda>n. map_of (url_charts u) n = None) (order u)))),
              build_definitions u)
    \<and> printed (build_definitions u) = printed u"
  using assms
  by (simp add: create_def Let_def build_definitions_fields emit_charts_missing)

theorem create_raises_for_missing_chart_witness:
  "''x'' \<in> set (order (example_url\<lparr>order := [''c'', ''x'']\<rparr>))
   \<and> map_of (url_charts (example_url\<lparr>order := [''c'', ''x'']\<rparr>)) ''x'' = None
   \<and> create (Some [(''m1'', PInt 5)]) (example_url\<lparr>order := [''c'', ''x'']\<rparr>)
       = (Inl (KeyError ''x''),
          example_url\<lparr>order := [''c'', ''x''], definitions := [(''c'', [''m1'', ''m2''])]\<rparr>)"
proof -
  have ordered: "''x'' \<in> set (order (example_url\<lparr>order := [''c'', ''x'']\<rparr>))"
    by simp
  have missing: "map_of (url_charts (example_url\<lparr>order := [''c'', ''x'']\<rparr>)) ''x'' = None"
    by (simp add: example_url_def)
  show ?thesis
    using ordered missing
      create_raises_for_missing_chart [OF ordered missing, of "[(''m1'', PInt 5)]"]
    by (simp add: build_definitions_def example_url_def)
qed

text \<open>
  With the same order and table, when the fetch returns \<^verbatim>\<open>None\<close>, \<^verbatim>\<open>create\<close> returns false
  before its second loop: no exception is raised.
\<close>

theorem create_without_dataset_returns_false:
  "map_of (url_charts (example_url\<lparr>order := [''c'', ''x'']\<rparr>)) ''x'' = None
   \<and> create None (example_url\<lparr>order := [''c'', ''x'']\<rparr>)
       = (Inr False, example_url\<lparr>order := [''c'', ''x''],
                                 definitions := [(''c'', [''m1'', ''m2''])]\<rparr>)"
  by (simp add: create_def build_definitions_def example_url_def)

end
